theory Spec2Isabelle
  imports Main "HOL-Library.AList" "HOL-Library.Multiset" "HOL-Library.Word"
begin

section \<open>Data model of the registration endpoint\<close>

text \<open>
  The request and response structs of package \<open>operation\<close> (\<open>RegisterDIDRequest\<close>,
  \<open>PublicKey\<close>, \<open>Service\<close>, \<open>RegisterResponse\<close>, \<open>DIDState\<close>, \<open>Secret\<close>, \<open>Key\<close>) are
  declared in a file that is not part of the sources at hand; \<open>operations.go\<close> only reads
  and writes their fields. The records below carry exactly the fields that
  \<open>operations.go\<close> touches, under the names it uses. A Go \<open>[]byte\<close> is a list of
  8-bit words, a Go \<open>string\<close> is a \<open>string\<close>, and a Go \<open>error\<close> is represented by the
  text its \<open>Error()\<close> method returns.
\<close>

type_synonym bytes = "8 word list"

record PublicKey =
  ID :: string
  Type :: string
  Value :: string
  KeyType :: string
  Purposes :: "string list"
  Recovery :: bool
  Update :: bool

record Service =
  Service_ID :: string
  Service_Type :: string
  Priority :: nat
  RecipientKeys :: "string list"
  RoutingKeys :: "string list"
  Endpoint :: string

record DIDDocument_request =
  PublicKey :: "PublicKey list"
  Service :: "Service list"

record RegisterDIDRequest =
  JobID :: string
  DIDDocument :: DIDDocument_request

datatype RegistrationState = RegistrationStateFinished | RegistrationStateFailure

record Key =
  Key_ID :: string
  PublicKeyBase58 :: string

record DIDState =
  Identifier :: string
  Reason :: string
  State :: "RegistrationState option"
  Secret_Keys :: "Key list"

record RegisterResponse =
  Response_JobID :: string
  Response_DIDState :: DIDState

text \<open>
  Modelled from the spec: the key-type constants \<open>Ed25519KeyType\<close> and \<open>P256KeyType\<close>,
  declared beside the request structs and absent from the sources at hand. Section 4.1
  of the specification names the two supported key types \<open>Ed25519\<close> and \<open>P-256\<close>.
\<close>

definition Ed25519KeyType :: string where
  "Ed25519KeyType = ''Ed25519''"

definition P256KeyType :: string where
  "P256KeyType = ''P-256''"

text \<open>
  Modelled from the spec: the five purpose tags \<open>doc.KeyPurpose...\<close> that the handler's
  \<open>switch\<close> compares against; the constants live in the sidetree document package,
  outside the sources at hand. Section 3 of the specification enumerates the tags as
  Authentication, AssertionMethod, KeyAgreement, CapabilityDelegation and
  CapabilityInvocation.
\<close>

definition KeyPurposeAuthentication :: string where
  "KeyPurposeAuthentication = ''Authentication''"

definition KeyPurposeAssertionMethod :: string where
  "KeyPurposeAssertionMethod = ''AssertionMethod''"

definition KeyPurposeKeyAgreement :: string where
  "KeyPurposeKeyAgreement = ''KeyAgreement''"

definition KeyPurposeCapabilityDelegation :: string where
  "KeyPurposeCapabilityDelegation = ''CapabilityDelegation''"

definition KeyPurposeCapabilityInvocation :: string where
  "KeyPurposeCapabilityInvocation = ''CapabilityInvocation''"

text \<open>The tags that have a case of their own in the handler's \<open>switch\<close>, in its order.\<close>

definition supported_purposes :: "string list" where
  "supported_purposes = [KeyPurposeAuthentication, KeyPurposeAssertionMethod,
     KeyPurposeKeyAgreement, KeyPurposeCapabilityDelegation, KeyPurposeCapabilityInvocation]"

definition invalidRequestErrMsg :: string where
  "invalidRequestErrMsg = ''invalid request''"

definition registerPath :: string where
  "registerPath = ''/1.0'' @ ''/register''"

definition resolveDIDEndpoint :: string where
  "resolveDIDEndpoint = ''/resolveDID''"

definition registrarMode :: string where
  "registrarMode = ''registrar''"

definition resolverMode :: string where
  "resolverMode = ''resolver''"

definition combinedMode :: string where
  "combinedMode = ''combined''"

subsection \<open>The document under construction\<close>

text \<open>
  The decoded key is an \<open>interface{}\<close> in the source, holding either an
  \<open>ed25519.PublicKey\<close> (the raw bytes) or a pointer to an \<open>ecdsa.PublicKey\<close> on the
  P-256 curve, whose coordinates \<open>X\<close> and \<open>Y\<close> are \<open>*big.Int\<close> pointers and may be nil.
\<close>

datatype key =
    ed25519_PublicKey bytes
  | ecdsa_PublicKey_P256 "int option" "int option"

datatype OptionName = RecoveryPublicKeyOpt | UpdatePublicKeyOpt

text \<open>\<open>vdr.WithOption(name, value)\<close>: an option handed to the backend beside the document.\<close>

datatype DIDMethodOption = WithOption OptionName key

datatype VerificationRelationship =
    Authentication_rel
  | AssertionMethod_rel
  | KeyAgreement_rel
  | CapabilityDelegation_rel
  | CapabilityInvocation_rel

text \<open>
  \<open>did.NewReferencedVerification(vm, relationship)\<close>: a bucket entry that refers to the
  verification method \<open>vm\<close> under one relationship.
\<close>

datatype 'vm Verification = NewReferencedVerification 'vm VerificationRelationship

record did_Service =
  did_Service_ID :: string
  did_Service_Type :: string
  did_Service_Priority :: nat
  did_Service_RecipientKeys :: "string list"
  did_Service_RoutingKeys :: "string list"
  did_Service_ServiceEndpoint :: string

text \<open>The fields of \<open>did.Doc\<close> that the handler fills; every other field keeps its zero value.\<close>

record 'vm Doc =
  Authentication :: "'vm Verification list"
  AssertionMethod :: "'vm Verification list"
  KeyAgreement :: "'vm Verification list"
  CapabilityDelegation :: "'vm Verification list"
  CapabilityInvocation :: "'vm Verification list"
  Doc_Service :: "did_Service list"

definition empty_Doc :: "'vm Doc" where
  "empty_Doc = \<lparr>Authentication = [], AssertionMethod = [], KeyAgreement = [],
     CapabilityDelegation = [], CapabilityInvocation = [], Doc_Service = []\<rparr>"

subsection \<open>External collaborators\<close>

text \<open>
  Everything the handler calls outside this repository is a parameter: the JSON decoder
  of the request body, the standard base64 decoder, the elliptic-curve point decoder
  \<open>elliptic.Unmarshal(elliptic.P256(), _)\<close> (which returns two nil pointers when the bytes
  are not a valid uncompressed point), the JWK wrapper, the verification-method
  constructor, the backend's \<open>Create\<close> (its result is the error text, or the \<open>ID\<close> of the
  document of the returned resolution), and the base58 encoder.
\<close>

record ('jwk, 'vm) env =
  json_Decode :: "string \<Rightarrow> string + RegisterDIDRequest"
  base64_DecodeString :: "string \<Rightarrow> string + bytes"
  elliptic_Unmarshal :: "bytes \<Rightarrow> int option \<times> int option"
  JWKFromKey :: "key \<Rightarrow> string + 'jwk"
  NewVerificationMethodFromJWK :: "string \<Rightarrow> string \<Rightarrow> string \<Rightarrow> 'jwk \<Rightarrow> string + 'vm"
  blocVDRI_Create :: "'vm Doc \<Rightarrow> DIDMethodOption list \<Rightarrow> string + string"
  base58_Encode :: "bytes \<Rightarrow> string"

subsection \<open>Go maps\<close>

text \<open>
  The map \<open>keysID\<close> is an association list with pairwise distinct keys; the assignment
  \<open>keysID[k] = v\<close> is \<open>AList.update k v\<close>, which overwrites the value of a key already
  present and adds the pair otherwise. Go leaves the order of a \<open>range\<close> over a map
  unspecified. The order the runtime picks is an argument of the model: \<open>range_order seed\<close>
  rearranges the entries, following the numbers of \<open>seed\<close>, and every arrangement of the
  entries is the result of some seed.
\<close>

type_synonym 'v go_map = "(string \<times> 'v) list"

definition insert_at :: "nat \<Rightarrow> 'a \<Rightarrow> 'a list \<Rightarrow> 'a list" where
  "insert_at i x ys = take i ys @ x # drop i ys"

fun range_order :: "nat list \<Rightarrow> 'a list \<Rightarrow> 'a list" where
  "range_order seed [] = []"
| "range_order [] (x # xs) = x # range_order [] xs"
| "range_order (n # seed) (x # xs) = insert_at (n mod Suc (length xs)) x (range_order seed xs)"

section \<open>The registration handler\<close>

subsection \<open>Response writing\<close>

text \<open>
  The \<open>http.ResponseWriter\<close>: the status passed to \<open>WriteHeader\<close>, if it was called, and
  what was written to the body, in order. \<open>writeResponse\<close> writes the JSON encoding of a
  response and never calls \<open>WriteHeader\<close>; \<open>net/http\<close> then sends status 200.
\<close>

datatype payload = Text string | JSON RegisterResponse

record ResponseWriter =
  WriteHeader_status :: "nat option"
  written :: "payload list"

definition new_ResponseWriter :: ResponseWriter where
  "new_ResponseWriter = \<lparr>WriteHeader_status = None, written = []\<rparr>"

definition http_StatusOK :: nat where
  "http_StatusOK = 200"

definition http_StatusBadRequest :: nat where
  "http_StatusBadRequest = 400"

definition status_sent :: "ResponseWriter \<Rightarrow> nat" where
  "status_sent rw = (case WriteHeader_status rw of None \<Rightarrow> http_StatusOK | Some s \<Rightarrow> s)"

definition writeErrorResponse :: "ResponseWriter \<Rightarrow> nat \<Rightarrow> string \<Rightarrow> ResponseWriter" where
  "writeErrorResponse rw status msg =
     rw\<lparr>WriteHeader_status := Some status, written := written rw @ [Text msg]\<rparr>"

definition writeResponse :: "ResponseWriter \<Rightarrow> RegisterResponse \<Rightarrow> ResponseWriter" where
  "writeResponse rw v = rw\<lparr>written := written rw @ [JSON v]\<rparr>"

subsection \<open>Key decoding and the secret bundle\<close>

definition getKey :: "('jwk, 'vm) env \<Rightarrow> string \<Rightarrow> bytes \<Rightarrow> string + key" where
  "getKey env keyType value =
     (if keyType = Ed25519KeyType then Inr (ed25519_PublicKey value)
      else if keyType = P256KeyType then
        (case elliptic_Unmarshal env value of (x, y) \<Rightarrow> Inr (ecdsa_PublicKey_P256 x y))
      else Inl (''invalid key type: '' @ keyType))"

text \<open>
  \<open>createKeys\<close> ranges over the map \<open>keysID\<close>; the argument \<open>seed\<close> is the iteration order
  the runtime picks for that range.
\<close>

definition createKeys :: "('jwk, 'vm) env \<Rightarrow> nat list \<Rightarrow> bytes go_map \<Rightarrow> string \<Rightarrow> Key list" where
  "createKeys env seed keysID didID =
     map (\<lambda>(k, v). \<lparr>Key_ID = didID @ ''#'' @ k, PublicKeyBase58 = base58_Encode env v\<rparr>)
       (range_order seed keysID)"

subsection \<open>The loop over the submitted keys\<close>

text \<open>
  The inner loop over \<open>v.Purposes\<close>: each recognised tag appends one reference to the
  verification method \<open>vm\<close> to its bucket; any other tag ends the request.
\<close>

fun addPurposes :: "'vm \<Rightarrow> string list \<Rightarrow> 'vm Doc \<Rightarrow> string + 'vm Doc" where
  "addPurposes vm [] didDoc = Inr didDoc"
| "addPurposes vm (p # ps) didDoc =
     (if p = KeyPurposeAuthentication then
        addPurposes vm ps (didDoc\<lparr>Authentication :=
          Authentication didDoc @ [NewReferencedVerification vm Authentication_rel]\<rparr>)
      else if p = KeyPurposeAssertionMethod then
        addPurposes vm ps (didDoc\<lparr>AssertionMethod :=
          AssertionMethod didDoc @ [NewReferencedVerification vm AssertionMethod_rel]\<rparr>)
      else if p = KeyPurposeKeyAgreement then
        addPurposes vm ps (didDoc\<lparr>KeyAgreement :=
          KeyAgreement didDoc @ [NewReferencedVerification vm KeyAgreement_rel]\<rparr>)
      else if p = KeyPurposeCapabilityDelegation then
        addPurposes vm ps (didDoc\<lparr>CapabilityDelegation :=
          CapabilityDelegation didDoc @ [NewReferencedVerification vm CapabilityDelegation_rel]\<rparr>)
      else if p = KeyPurposeCapabilityInvocation then
        addPurposes vm ps (didDoc\<lparr>CapabilityInvocation :=
          CapabilityInvocation didDoc @ [NewReferencedVerification vm CapabilityInvocation_rel]\<rparr>)
      else Inl (''public key purpose '' @ p @ '' not supported''))"

text \<open>The three variables the loop over the keys updates.\<close>

record 'vm loop_state =
  didDoc :: "'vm Doc"
  didMethodOpt :: "DIDMethodOption list"
  keysID :: "bytes go_map"

definition init_state :: "'vm loop_state" where
  "init_state = \<lparr>didDoc = empty_Doc, didMethodOpt = [], keysID = []\<rparr>"

text \<open>
  One iteration of the loop over \<open>data.DIDDocument.PublicKey\<close>. \<open>Inl reason\<close> is the
  iteration writing a failure response with that reason and returning from the handler.
\<close>

definition addPublicKey ::
  "('jwk, 'vm) env \<Rightarrow> PublicKey \<Rightarrow> 'vm loop_state \<Rightarrow> string + 'vm loop_state" where
  "addPublicKey env v s =
     (case base64_DecodeString env (Value v) of
        Inl err \<Rightarrow> Inl (''failed to decode public key value : '' @ err)
      | Inr keyValue \<Rightarrow>
        (case getKey env (KeyType v) keyValue of
           Inl err \<Rightarrow> Inl err
         | Inr k \<Rightarrow>
           if Recovery v then
             Inr (s\<lparr>didMethodOpt := didMethodOpt s @ [WithOption RecoveryPublicKeyOpt k]\<rparr>)
           else if Update v then
             Inr (s\<lparr>didMethodOpt := didMethodOpt s @ [WithOption UpdatePublicKeyOpt k]\<rparr>)
           else
             (case JWKFromKey env k of
                Inl err \<Rightarrow> Inl err
              | Inr jwk \<Rightarrow>
                (case NewVerificationMethodFromJWK env (ID v) (Type v) [] jwk of
                   Inl err \<Rightarrow> Inl err
                 | Inr vm \<Rightarrow>
                   (case addPurposes vm (Purposes v) (didDoc s) of
                      Inl err \<Rightarrow> Inl err
                    | Inr d \<Rightarrow>
                      Inr (s\<lparr>didDoc := d,
                             keysID := AList.update (ID v) keyValue (keysID s)\<rparr>))))))"

fun addPublicKeys ::
  "('jwk, 'vm) env \<Rightarrow> PublicKey list \<Rightarrow> 'vm loop_state \<Rightarrow> string + 'vm loop_state" where
  "addPublicKeys env [] s = Inr s"
| "addPublicKeys env (v # vs) s =
     (case addPublicKey env v s of
        Inl reason \<Rightarrow> Inl reason
      | Inr s' \<Rightarrow> addPublicKeys env vs s')"

subsection \<open>Services\<close>

definition to_did_Service :: "Service \<Rightarrow> did_Service" where
  "to_did_Service service =
     \<lparr>did_Service_ID = Service_ID service, did_Service_Type = Service_Type service,
      did_Service_Priority = Priority service,
      did_Service_RecipientKeys = RecipientKeys service,
      did_Service_RoutingKeys = RoutingKeys service,
      did_Service_ServiceEndpoint = Endpoint service\<rparr>"

fun addServices :: "Service list \<Rightarrow> 'vm Doc \<Rightarrow> 'vm Doc" where
  "addServices [] d = d"
| "addServices (service # rest) d =
     addServices rest (d\<lparr>Doc_Service := Doc_Service d @ [to_did_Service service]\<rparr>)"

subsection \<open>The handler\<close>

text \<open>
  What one run of the handler leaves behind: the response writer, and the calls it made
  to the backend's \<open>Create\<close>, each with the document and the options submitted.
\<close>

record 'vm outcome =
  rw :: ResponseWriter
  create_calls :: "('vm Doc \<times> DIDMethodOption list) list"

definition failure :: "string \<Rightarrow> DIDState" where
  "failure reason =
     \<lparr>Identifier = [], Reason = reason, State = Some RegistrationStateFailure, Secret_Keys = []\<rparr>"

definition finished :: "string \<Rightarrow> Key list \<Rightarrow> DIDState" where
  "finished identifier keys =
     \<lparr>Identifier = identifier, Reason = [], State = Some RegistrationStateFinished,
      Secret_Keys = keys\<rparr>"

definition respond :: "string \<Rightarrow> DIDState \<Rightarrow> ResponseWriter" where
  "respond jobID st =
     writeResponse new_ResponseWriter \<lparr>Response_JobID = jobID, Response_DIDState = st\<rparr>"

definition registerDIDHandler :: "('jwk, 'vm) env \<Rightarrow> nat list \<Rightarrow> string \<Rightarrow> 'vm outcome" where
  "registerDIDHandler env seed body =
     (case json_Decode env body of
        Inl err \<Rightarrow>
          \<lparr>rw = writeErrorResponse new_ResponseWriter http_StatusBadRequest
                  (invalidRequestErrMsg @ '': '' @ err),
           create_calls = []\<rparr>
      | Inr data \<Rightarrow>
          if length (PublicKey (DIDDocument data)) = 0 then
            \<lparr>rw = respond (JobID data) (failure ''AddPublicKeys is empty''), create_calls = []\<rparr>
          else
            (case addPublicKeys env (PublicKey (DIDDocument data)) init_state of
               Inl reason \<Rightarrow> \<lparr>rw = respond (JobID data) (failure reason), create_calls = []\<rparr>
             | Inr s \<Rightarrow>
                 (let doc = addServices (Service (DIDDocument data)) (didDoc s) in
                  (case blocVDRI_Create env doc (didMethodOpt s) of
                     Inl err \<Rightarrow>
                       \<lparr>rw = respond (JobID data)
                               (failure (''failed to create did doc : '' @ err)),
                        create_calls = [(doc, didMethodOpt s)]\<rparr>
                   | Inr didID \<Rightarrow>
                       \<lparr>rw = respond (JobID data)
                               (finished didID (createKeys env seed (keysID s) didID)),
                        create_calls = [(doc, didMethodOpt s)]\<rparr>))))"

section \<open>The mode router\<close>

text \<open>
  Modelled from the spec: \<open>support.NewHTTPHandler\<close>, of a package of this repository that
  is not among the sources at hand. Section 4.6 of the specification describes a handler
  as a triple of path, method and handler function; the two handler functions of
  \<open>Operation\<close> are told apart by a tag.
\<close>

datatype HandlerFunc = registerDIDHandler_func | resolveDIDHandler_func

record Handler =
  Path :: string
  Method :: string
  Handle :: HandlerFunc

definition NewHTTPHandler :: "string \<Rightarrow> string \<Rightarrow> HandlerFunc \<Rightarrow> Handler" where
  "NewHTTPHandler path method handle = \<lparr>Path = path, Method = method, Handle = handle\<rparr>"

definition http_MethodPost :: string where
  "http_MethodPost = ''POST''"

definition http_MethodGet :: string where
  "http_MethodGet = ''GET''"

definition registrarHandlers :: "Handler list" where
  "registrarHandlers = [NewHTTPHandler registerPath http_MethodPost registerDIDHandler_func]"

definition resolverHandlers :: "Handler list" where
  "resolverHandlers = [NewHTTPHandler resolveDIDEndpoint http_MethodGet resolveDIDHandler_func]"

definition GetRESTHandlers :: "string \<Rightarrow> string + Handler list" where
  "GetRESTHandlers mode =
     (if mode = registrarMode then Inr registrarHandlers
      else if mode = resolverMode then Inr resolverHandlers
      else if mode = combinedMode then
        (let vh = registrarHandlers; ih = resolverHandlers in Inr (vh @ ih))
      else Inl (''invalid operation mode: '' @ mode))"

section \<open>A concrete environment\<close>

text \<open>
  Stand-ins for the collaborators, used to run the handler on concrete requests. The
  base64 decoder and the base58 encoder are the real ones restricted to the values the
  examples use (\<open>AQID\<close> and \<open>BAUG\<close> are the standard base64 encodings of the bytes
  1, 2, 3 and 4, 5, 6, whose base58 encodings are \<open>Ldp\<close> and \<open>2MJu\<close>); the point
  decoder rejects every input, as the real one does for these three-byte strings; a JWK
  is the key itself, and a verification method is its id, type, controller and JWK.
  The JSON decoder returns the request \<open>data\<close> whatever the body, and the backend is the
  function \<open>create\<close>.
\<close>

definition example_base64 :: "string \<Rightarrow> string + bytes" where
  "example_base64 s =
     (if s = ''AQID'' then Inr [1, 2, 3]
      else if s = ''BAUG'' then Inr [4, 5, 6]
      else Inl ''illegal base64 data at input byte 0'')"

definition example_base58 :: "bytes \<Rightarrow> string" where
  "example_base58 b =
     (if b = [1, 2, 3] then ''Ldp'' else if b = [4, 5, 6] then ''2MJu'' else [])"

type_synonym example_vm = "string \<times> string \<times> string \<times> key"

definition example_env ::
  "RegisterDIDRequest \<Rightarrow> (example_vm Doc \<Rightarrow> DIDMethodOption list \<Rightarrow> string + string)
     \<Rightarrow> (key, example_vm) env" where
  "example_env data create =
     \<lparr>json_Decode = (\<lambda>body. Inr data),
      base64_DecodeString = example_base64,
      elliptic_Unmarshal = (\<lambda>value. (None, None)),
      JWKFromKey = (\<lambda>k. Inr k),
      NewVerificationMethodFromJWK = (\<lambda>kid typ controller jwk. Inr (kid, typ, controller, jwk)),
      blocVDRI_Create = create,
      base58_Encode = example_base58\<rparr>"

definition example_key :: "string \<Rightarrow> string \<Rightarrow> string \<Rightarrow> string list \<Rightarrow> PublicKey" where
  "example_key kid keyType value purposes =
     \<lparr>ID = kid, Type = ''JsonWebKey2020'', Value = value, KeyType = keyType,
      Purposes = purposes, Recovery = False, Update = False\<rparr>"

definition example_request :: "PublicKey list \<Rightarrow> RegisterDIDRequest" where
  "example_request keys =
     \<lparr>JobID = ''j1'', DIDDocument = \<lparr>PublicKey = keys, Service = []\<rparr>\<rparr>"

definition create_ok :: "example_vm Doc \<Rightarrow> DIDMethodOption list \<Rightarrow> string + string" where
  "create_ok doc opts = Inr ''did:example:abc''"

definition create_fails :: "example_vm Doc \<Rightarrow> DIDMethodOption list \<Rightarrow> string + string" where
  "create_fails doc opts = Inl ''boom''"

text \<open>Some key entries: a recovery key, three ordinary keys (two of them with the same
  id), and an ordinary key that lists two purposes, one of them twice.\<close>

definition example_recovery :: PublicKey where
  "example_recovery =
     (example_key ''r1'' ''Ed25519'' ''BAUG'' [''Authentication''])\<lparr>Recovery := True\<rparr>"

definition example_k1 :: PublicKey where
  "example_k1 = example_key ''k1'' ''Ed25519'' ''AQID'' [''Authentication'', ''KeyAgreement'']"

definition example_k2 :: PublicKey where
  "example_k2 = example_key ''k2'' ''Ed25519'' ''BAUG'' [''Authentication'']"

definition example_k1_again :: PublicKey where
  "example_k1_again = example_key ''k1'' ''Ed25519'' ''BAUG'' [''AssertionMethod'']"

definition example_repeated :: PublicKey where
  "example_repeated =
     example_key ''k3'' ''Ed25519'' ''AQID''
       [''Authentication'', ''KeyAgreement'', ''Authentication'']"

text \<open>
  The environment for a request with the given keys and a backend that accepts, and the
  document built from the keys \<open>k1\<close> and \<open>k2\<close> above.
\<close>

definition example_env_of :: "PublicKey list \<Rightarrow> (key, example_vm) env" where
  "example_env_of keys = example_env (example_request keys) create_ok"

definition example_doc :: "example_vm Doc" where
  "example_doc =
     \<lparr>Authentication =
        [NewReferencedVerification
           (''k1'', ''JsonWebKey2020'', [], ed25519_PublicKey [1, 2, 3]) Authentication_rel,
         NewReferencedVerification
           (''k2'', ''JsonWebKey2020'', [], ed25519_PublicKey [4, 5, 6]) Authentication_rel],
      AssertionMethod = [],
      KeyAgreement =
        [NewReferencedVerification
           (''k1'', ''JsonWebKey2020'', [], ed25519_PublicKey [1, 2, 3]) KeyAgreement_rel],
      CapabilityDelegation = [], CapabilityInvocation = [], Doc_Service = []\<rparr>"

section \<open>Notions used in the statements\<close>

text \<open>
  An entry is ordinary when it is neither a recovery nor an update key. \<open>decoded env v\<close>
  is the byte string the value of the entry \<open>v\<close> decodes to (the empty one when it does
  not decode). \<open>doc_append d e\<close> appends the buckets and services of \<open>e\<close> to those of
  \<open>d\<close>, and \<open>purpose_refs vm ps\<close> holds, in each bucket, one reference to \<open>vm\<close> for
  each occurrence of the bucket's tag in \<open>ps\<close>.
\<close>

definition ordinary :: "PublicKey \<Rightarrow> bool" where
  "ordinary v = (\<not> Recovery v \<and> \<not> Update v)"

definition decoded :: "('jwk, 'vm) env \<Rightarrow> PublicKey \<Rightarrow> bytes" where
  "decoded env v = (case base64_DecodeString env (Value v) of Inl err \<Rightarrow> [] | Inr keyValue \<Rightarrow> keyValue)"

definition doc_append :: "'vm Doc \<Rightarrow> 'vm Doc \<Rightarrow> 'vm Doc" where
  "doc_append d e =
     \<lparr>Authentication = Authentication d @ Authentication e,
      AssertionMethod = AssertionMethod d @ AssertionMethod e,
      KeyAgreement = KeyAgreement d @ KeyAgreement e,
      CapabilityDelegation = CapabilityDelegation d @ CapabilityDelegation e,
      CapabilityInvocation = CapabilityInvocation d @ CapabilityInvocation e,
      Doc_Service = Doc_Service d @ Doc_Service e\<rparr>"

definition purpose_refs :: "'vm \<Rightarrow> string list \<Rightarrow> 'vm Doc" where
  "purpose_refs vm ps =
     \<lparr>Authentication = replicate (count_list ps KeyPurposeAuthentication)
        (NewReferencedVerification vm Authentication_rel),
      AssertionMethod = replicate (count_list ps KeyPurposeAssertionMethod)
        (NewReferencedVerification vm AssertionMethod_rel),
      KeyAgreement = replicate (count_list ps KeyPurposeKeyAgreement)
        (NewReferencedVerification vm KeyAgreement_rel),
      CapabilityDelegation = replicate (count_list ps KeyPurposeCapabilityDelegation)
        (NewReferencedVerification vm CapabilityDelegation_rel),
      CapabilityInvocation = replicate (count_list ps KeyPurposeCapabilityInvocation)
        (NewReferencedVerification vm CapabilityInvocation_rel),
      Doc_Service = []\<rparr>"





section \<open>Auxiliary facts\<close>

lemmas example_defs = example_env_def example_key_def example_request_def create_ok_def
  create_fails_def example_base64_def example_base58_def example_recovery_def example_k1_def
  example_k2_def example_k1_again_def example_repeated_def example_env_of_def example_doc_def

lemmas handler_defs = registerDIDHandler_def respond_def failure_def finished_def
  writeResponse_def writeErrorResponse_def new_ResponseWriter_def init_state_def empty_Doc_def
  addPublicKey_def getKey_def createKeys_def

lemmas eval_defs = example_defs handler_defs KeyPurposeAuthentication_def
  KeyPurposeAssertionMethod_def KeyPurposeKeyAgreement_def KeyPurposeCapabilityDelegation_def
  KeyPurposeCapabilityInvocation_def Ed25519KeyType_def P256KeyType_def Let_def

lemmas purpose_defs = KeyPurposeAuthentication_def KeyPurposeAssertionMethod_def
  KeyPurposeKeyAgreement_def KeyPurposeCapabilityDelegation_def
  KeyPurposeCapabilityInvocation_def

lemma addPublicKeys_append:
  "addPublicKeys env (xs @ ys) s =
     (case addPublicKeys env xs s of Inl r \<Rightarrow> Inl r | Inr s' \<Rightarrow> addPublicKeys env ys s')"
  by (induction xs arbitrary: s) (auto split: sum.splits)

lemma addPublicKeys_stops:
  assumes "addPublicKeys env pre s0 = Inr s" and "addPublicKey env v s = Inl reason"
  shows "addPublicKeys env (pre @ v # post) s0 = Inl reason"
  using assms by (simp add: addPublicKeys_append)

lemma handler_loop_failure:
  assumes "json_Decode env body = Inr data"
    and "PublicKey (DIDDocument data) \<noteq> []"
    and "addPublicKeys env (PublicKey (DIDDocument data)) init_state = Inl reason"
  shows "registerDIDHandler env seed body =
     \<lparr>rw = respond (JobID data) (failure reason), create_calls = []\<rparr>"
  using assms by (simp add: registerDIDHandler_def)

lemma addPurposes_unsupported:
  assumes "set ps \<subseteq> set supported_purposes" and "p \<notin> set supported_purposes"
  shows "addPurposes vm (ps @ p # qs) d = Inl (''public key purpose '' @ p @ '' not supported'')"
  using assms
proof (induction ps arbitrary: d)
  case Nil
  then show ?case by (simp add: supported_purposes_def)
next
  case (Cons a ps)
  then show ?case by (auto simp: supported_purposes_def)
qed

lemma doc_append_empty_left: "doc_append empty_Doc d = d"
  by (simp add: doc_append_def empty_Doc_def)

lemma doc_append_empty_right: "doc_append d empty_Doc = d"
  by (simp add: doc_append_def empty_Doc_def)

lemma doc_append_assoc: "doc_append (doc_append a b) c = doc_append a (doc_append b c)"
  by (simp add: doc_append_def)

lemma purpose_refs_Nil: "purpose_refs vm [] = empty_Doc"
  by (simp add: purpose_refs_def empty_Doc_def)

lemma addPurposes_supported:
  "set ps \<subseteq> set supported_purposes \<Longrightarrow>
   addPurposes vm ps d = Inr (doc_append d (purpose_refs vm ps))"
proof (induction ps arbitrary: d)
  case Nil
  then show ?case by (simp add: purpose_refs_Nil doc_append_empty_right)
next
  case (Cons p ps)
  then have ih: "\<And>e. addPurposes vm ps e = Inr (doc_append e (purpose_refs vm ps))"
    by simp
  from Cons.prems have "p \<in> set supported_purposes" by simp
  then show ?case
    by (auto simp: ih supported_purposes_def doc_append_def purpose_defs purpose_refs_def)
qed

lemma addPurposes_Inr_supported:
  "addPurposes vm ps d = Inr d' \<Longrightarrow> set ps \<subseteq> set supported_purposes"
  by (induction ps arbitrary: d) (auto simp: supported_purposes_def split: if_splits)

lemma addPurposes_Inr:
  assumes "addPurposes vm ps d = Inr d'"
  shows "d' = doc_append d (purpose_refs vm ps)"
proof -
  have "set ps \<subseteq> set supported_purposes"
    using assms by (rule addPurposes_Inr_supported)
  then have "addPurposes vm ps d = Inr (doc_append d (purpose_refs vm ps))"
    by (rule addPurposes_supported)
  with assms show ?thesis by simp
qed

lemma addPurposes_indep:
  assumes "addPurposes vm ps d = Inr d'"
  shows "addPurposes vm ps e = Inr (doc_append e (purpose_refs vm ps))"
proof -
  have "set ps \<subseteq> set supported_purposes"
    using assms by (rule addPurposes_Inr_supported)
  then show ?thesis by (rule addPurposes_supported)
qed

text \<open>One iteration, for any starting state.\<close>

lemma addPublicKey_flagged:
  assumes "\<not> ordinary v" and "addPublicKey env v s = Inr s'"
  shows "\<exists>k. base64_DecodeString env (Value v) = Inr (decoded env v) \<and>
     getKey env (KeyType v) (decoded env v) = Inr k \<and>
     (\<forall>u. addPublicKey env v u = Inr (u\<lparr>didMethodOpt := didMethodOpt u @
       [WithOption (if Recovery v then RecoveryPublicKeyOpt else UpdatePublicKeyOpt) k]\<rparr>))"
  using assms
  by (auto simp: addPublicKey_def ordinary_def decoded_def split: sum.splits if_splits)

lemma addPublicKey_ordinary:
  assumes "ordinary v" and "addPublicKey env v s = Inr s'"
  shows "\<exists>k jwk vm. base64_DecodeString env (Value v) = Inr (decoded env v) \<and>
     getKey env (KeyType v) (decoded env v) = Inr k \<and>
     JWKFromKey env k = Inr jwk \<and>
     NewVerificationMethodFromJWK env (ID v) (Type v) [] jwk = Inr vm \<and>
     (\<forall>u. addPublicKey env v u =
        Inr (u\<lparr>didDoc := doc_append (didDoc u) (purpose_refs vm (Purposes v)),
               keysID := AList.update (ID v) (decoded env v) (keysID u)\<rparr>))"
proof -
  from assms obtain k jwk vm d where
    a: "base64_DecodeString env (Value v) = Inr (decoded env v)"
    and b: "getKey env (KeyType v) (decoded env v) = Inr k"
    and c: "JWKFromKey env k = Inr jwk"
    and d: "NewVerificationMethodFromJWK env (ID v) (Type v) [] jwk = Inr vm"
    and e: "addPurposes vm (Purposes v) (didDoc s) = Inr d"
    by (auto simp: addPublicKey_def ordinary_def decoded_def split: sum.splits if_splits)
  have "\<And>u. addPublicKey env v u =
        Inr (u\<lparr>didDoc := doc_append (didDoc u) (purpose_refs vm (Purposes v)),
               keysID := AList.update (ID v) (decoded env v) (keysID u)\<rparr>)"
    using assms(1) a b c d addPurposes_indep [OF e]
    by (simp add: addPublicKey_def ordinary_def)
  with a b c d show ?thesis by blast
qed

lemma addPublicKeys_shift:
  assumes "addPublicKeys env vs s = Inr s'"
  shows "\<exists>t. addPublicKeys env vs init_state = Inr t \<and>
     (\<forall>u. addPublicKeys env vs u =
        Inr \<lparr>didDoc = doc_append (didDoc u) (didDoc t),
             didMethodOpt = didMethodOpt u @ didMethodOpt t,
             keysID = fold (\<lambda>v. AList.update (ID v) (decoded env v)) (filter ordinary vs)
               (keysID u)\<rparr>)"
  using assms
proof (induction vs arbitrary: s)
  case Nil
  show ?case by (simp add: init_state_def doc_append_empty_right)
next
  case (Cons v vs)
  from Cons.prems obtain s1 where
    step: "addPublicKey env v s = Inr s1" and rest: "addPublicKeys env vs s1 = Inr s'"
    by (auto split: sum.splits)
  from Cons.IH [OF rest] obtain t where
    t0: "addPublicKeys env vs init_state = Inr t" and
    tall: "\<forall>u. addPublicKeys env vs u =
        Inr \<lparr>didDoc = doc_append (didDoc u) (didDoc t),
             didMethodOpt = didMethodOpt u @ didMethodOpt t,
             keysID = fold (\<lambda>v. AList.update (ID v) (decoded env v)) (filter ordinary vs)
               (keysID u)\<rparr>"
    by (elim exE conjE)
  note t = tall [rule_format]
  show ?case
  proof (cases "ordinary v")
    case True
    from addPublicKey_ordinary [OF True step] obtain vm where
      f: "\<And>u. addPublicKey env v u =
        Inr (u\<lparr>didDoc := doc_append (didDoc u) (purpose_refs vm (Purposes v)),
               keysID := AList.update (ID v) (decoded env v) (keysID u)\<rparr>)"
      by blast
    show ?thesis
      by (simp add: f t True init_state_def doc_append_empty_left doc_append_assoc)
  next
    case False
    from addPublicKey_flagged [OF False step] obtain k where
      f: "\<And>u. addPublicKey env v u = Inr (u\<lparr>didMethodOpt := didMethodOpt u @
       [WithOption (if Recovery v then RecoveryPublicKeyOpt else UpdatePublicKeyOpt) k]\<rparr>)"
      by blast
    show ?thesis
      by (simp add: f t False init_state_def doc_append_empty_left)
  qed
qed

lemma addPublicKeys_init:
  assumes "addPublicKeys env vs init_state = Inr t"
  shows "addPublicKeys env vs u =
        Inr \<lparr>didDoc = doc_append (didDoc u) (didDoc t),
             didMethodOpt = didMethodOpt u @ didMethodOpt t,
             keysID = fold (\<lambda>v. AList.update (ID v) (decoded env v)) (filter ordinary vs)
               (keysID u)\<rparr>"
  using addPublicKeys_shift [OF assms] assms by auto

lemma addPublicKeys_keysID:
  assumes "addPublicKeys env vs init_state = Inr t"
  shows "keysID t = fold (\<lambda>v. AList.update (ID v) (decoded env v)) (filter ordinary vs) []"
proof -
  have "addPublicKeys env vs init_state =
      Inr \<lparr>didDoc = doc_append empty_Doc (didDoc t), didMethodOpt = [] @ didMethodOpt t,
        keysID = fold (\<lambda>v. AList.update (ID v) (decoded env v)) (filter ordinary vs) []\<rparr>"
    using addPublicKeys_init [OF assms, of init_state] by (simp add: init_state_def)
  with assms have "t = \<lparr>didDoc = doc_append empty_Doc (didDoc t),
        didMethodOpt = [] @ didMethodOpt t,
        keysID = fold (\<lambda>v. AList.update (ID v) (decoded env v)) (filter ordinary vs) []\<rparr>"
    by simp
  from arg_cong [OF this, of keysID] show ?thesis by simp
qed

lemma addPublicKeys_decoded:
  assumes "addPublicKeys env vs s = Inr s'" and "v \<in> set vs"
  shows "base64_DecodeString env (Value v) = Inr (decoded env v)"
  using assms
proof (induction vs arbitrary: s)
  case Nil
  then show ?case by simp
next
  case (Cons a vs)
  from Cons.prems obtain s1 where
    step: "addPublicKey env a s = Inr s1" and rest: "addPublicKeys env vs s1 = Inr s'"
    by (auto split: sum.splits)
  show ?case
  proof (cases "v = a")
    case True
    with step show ?thesis
      by (auto simp: addPublicKey_def decoded_def split: sum.splits)
  next
    case False
    with Cons.prems have "v \<in> set vs" by simp
    with Cons.IH rest show ?thesis by blast
  qed
qed

text \<open>Splitting a successful run at one entry.\<close>

lemma addPublicKeys_split:
  assumes "addPublicKeys env (pre @ v # post) init_state = Inr s"
  shows "\<exists>s1 s2 s3. addPublicKeys env pre init_state = Inr s1 \<and>
     addPublicKey env v s1 = Inr s2 \<and>
     addPublicKeys env post init_state = Inr s3 \<and>
     addPublicKeys env post s2 = Inr s"
proof -
  from assms obtain s1 where s1: "addPublicKeys env pre init_state = Inr s1"
    and r: "addPublicKeys env (v # post) s1 = Inr s"
    by (auto simp: addPublicKeys_append split: sum.splits)
  from r obtain s2 where s2: "addPublicKey env v s1 = Inr s2"
    and p: "addPublicKeys env post s2 = Inr s"
    by (auto split: sum.splits)
  from addPublicKeys_shift [OF p] obtain s3 where
    "addPublicKeys env post init_state = Inr s3" by blast
  with s1 s2 p show ?thesis by blast
qed

lemma addServices_buckets:
  "Authentication (addServices svcs d) = Authentication d \<and>
   AssertionMethod (addServices svcs d) = AssertionMethod d \<and>
   KeyAgreement (addServices svcs d) = KeyAgreement d \<and>
   CapabilityDelegation (addServices svcs d) = CapabilityDelegation d \<and>
   CapabilityInvocation (addServices svcs d) = CapabilityInvocation d"
  by (induction svcs arbitrary: d) simp_all

lemma handler_create_call:
  assumes "json_Decode env body = Inr data"
    and "create_calls (registerDIDHandler env seed body) = [(doc, opts)]"
  shows "\<exists>s. addPublicKeys env (PublicKey (DIDDocument data)) init_state = Inr s \<and>
     doc = addServices (Service (DIDDocument data)) (didDoc s) \<and>
     opts = didMethodOpt s \<and>
     registerDIDHandler env seed body =
       \<lparr>rw = respond (JobID data)
          (case blocVDRI_Create env doc opts of
             Inl err \<Rightarrow> failure (''failed to create did doc : '' @ err)
           | Inr didID \<Rightarrow> finished didID (createKeys env seed (keysID s) didID)),
        create_calls = [(doc, opts)]\<rparr>"
  using assms
  by (auto simp: registerDIDHandler_def Let_def split: sum.splits if_splits)

lemma mset_insert_at: "i \<le> length ys \<Longrightarrow> mset (insert_at i x ys) = add_mset x (mset ys)"
proof -
  assume "i \<le> length ys"
  have "mset (take i ys) + mset (drop i ys) = mset ys"
    by (metis append_take_drop_id mset_append)
  then show ?thesis by (simp add: insert_at_def)
qed

lemma length_range_order: "length (range_order seed xs) = length xs"
  by (induction seed xs rule: range_order.induct) (auto simp: insert_at_def)

lemma mset_range_order: "mset (range_order seed xs) = mset xs"
proof (induction seed xs rule: range_order.induct)
  case (3 n seed x xs)
  have "n mod Suc (length xs) \<le> length (range_order seed xs)"
    by (simp add: length_range_order less_Suc_eq_le [symmetric])
  then show ?case using 3 by (simp add: mset_insert_at)
qed simp_all

lemma range_order_any:
  "mset ys = mset xs \<Longrightarrow> \<exists>seed. range_order seed xs = ys"
proof (induction xs arbitrary: ys)
  case Nil
  then show ?case by simp
next
  case (Cons x xs)
  then have "x \<in> set ys" by (metis list.set_intros(1) mset_eq_setD)
  then obtain as bs where ys: "ys = as @ x # bs" by (meson split_list)
  with Cons.prems have "mset (as @ bs) = mset xs" by simp
  from Cons.IH [OF this] obtain seed where seed: "range_order seed xs = as @ bs" by blast
  have len: "length as < Suc (length xs)"
    using seed length_range_order [of seed xs] by simp
  have "range_order (length as # seed) (x # xs) = ys"
    using len by (simp add: seed insert_at_def ys)
  then show ?case by blast
qed

lemma update_fresh:
  "k \<notin> fst ` set al \<Longrightarrow> AList.update k v al = al @ [(k, v)]"
  by (induction al) auto

lemma fold_update_distinct:
  "distinct (map fst m @ map f xs) \<Longrightarrow>
   fold (\<lambda>v. AList.update (f v) (g v)) xs m = m @ map (\<lambda>v. (f v, g v)) xs"
proof (induction xs arbitrary: m)
  case Nil
  then show ?case by simp
next
  case (Cons x xs)
  from Cons.prems have fresh: "f x \<notin> fst ` set m" by auto
  from Cons.prems have "distinct (map fst (m @ [(f x, g x)]) @ map f xs)" by auto
  from Cons.IH [OF this] show ?case by (simp add: update_fresh [OF fresh])
qed

lemma distinct_fold_update:
  "distinct (map fst m) \<Longrightarrow> distinct (map fst (fold (\<lambda>v. AList.update (f v) (g v)) xs m))"
  by (induction xs arbitrary: m) (simp_all add: distinct_update)

lemma map_of_fold_update:
  "map_of (fold (\<lambda>v. AList.update (f v) (g v)) xs m) k =
     (if \<exists>x \<in> set xs. f x = k then Some (g (last (filter (\<lambda>x. f x = k) xs)))
      else map_of m k)"
proof (induction xs arbitrary: m)
  case Nil
  then show ?case by simp
next
  case (Cons x xs)
  show ?case
    by (auto simp: Cons.IH update_conv' filter_empty_conv)
qed

lemma filter_key_distinct:
  "distinct (map fst al) \<Longrightarrow> map_of al k = Some x \<Longrightarrow>
   filter (\<lambda>p. fst p = k) al = [(k, x)]"
proof (induction al)
  case Nil
  then show ?case by simp
next
  case (Cons a al)
  show ?case
  proof (cases "fst a = k")
    case True
    with Cons.prems have "a = (k, x)" by (cases a) auto
    moreover have "k \<notin> fst ` set al" using True Cons.prems(1) by simp
    then have "\<forall>p \<in> set al. fst p \<noteq> k" by blast
    then have "filter (\<lambda>p. fst p = k) al = []" by (simp add: filter_empty_conv)
    ultimately show ?thesis by simp
  next
    case False
    with Cons show ?thesis by (cases a) auto
  qed
qed

lemma filter_range_order_single:
  assumes "filter P xs = [y]"
  shows "filter P (range_order seed xs) = [y]"
proof -
  have "mset (filter P (range_order seed xs)) = filter_mset P (mset xs)"
    by (simp add: mset_range_order)
  also have "\<dots> = mset (filter P xs)" by simp
  also have "\<dots> = {#y#}" by (simp add: assms)
  finally have "mset (filter P (range_order seed xs)) = mset [y]" by simp
  then show ?thesis by (metis mset_single_iff mset.simps)
qed

lemma handler_finished:
  assumes "json_Decode env body = Inr data"
    and "create_calls (registerDIDHandler env seed body) = [(doc, opts)]"
    and "blocVDRI_Create env doc opts = Inr didID"
  shows "\<exists>s. addPublicKeys env (PublicKey (DIDDocument data)) init_state = Inr s \<and>
     registerDIDHandler env seed body =
       \<lparr>rw = \<lparr>WriteHeader_status = None,
               written = [JSON \<lparr>Response_JobID = JobID data,
                 Response_DIDState = \<lparr>Identifier = didID, Reason = [],
                   State = Some RegistrationStateFinished,
                   Secret_Keys = createKeys env seed (keysID s) didID\<rparr>\<rparr>]\<rparr>,
        create_calls = [(doc, opts)]\<rparr>"
  using handler_create_call [OF assms(1,2)] assms(3)
  by (auto simp: respond_def finished_def writeResponse_def new_ResponseWriter_def)

lemma createKeys_filter:
  "filter (\<lambda>e. Key_ID e = didID @ ''#'' @ k) (createKeys env seed al didID) =
   map (\<lambda>(k, v). \<lparr>Key_ID = didID @ ''#'' @ k, PublicKeyBase58 = base58_Encode env v\<rparr>)
     (filter (\<lambda>p. fst p = k) (range_order seed al))"
  by (simp add: createKeys_def filter_map comp_def case_prod_beta)

section \<open>The mode router: properties\<close>

text \<open>
  C9. The mode router yields exactly the registration handler for mode \<open>registrar\<close>,
  exactly the resolution handler for mode \<open>resolver\<close>, and both, the registration
  handler first, for mode \<open>combined\<close>. For every other mode string it returns the
  error \<open>invalid operation mode: <mode>\<close> and no handlers.
\<close>

theorem GetRESTHandlers_modes:
  "GetRESTHandlers ''registrar'' =
     Inr [\<lparr>Path = ''/1.0/register'', Method = ''POST'', Handle = registerDIDHandler_func\<rparr>] \<and>
   GetRESTHandlers ''resolver'' =
     Inr [\<lparr>Path = ''/resolveDID'', Method = ''GET'', Handle = resolveDIDHandler_func\<rparr>] \<and>
   GetRESTHandlers ''combined'' =
     Inr [\<lparr>Path = ''/1.0/register'', Method = ''POST'', Handle = registerDIDHandler_func\<rparr>,
          \<lparr>Path = ''/resolveDID'', Method = ''GET'', Handle = resolveDIDHandler_func\<rparr>] \<and>
   (mode \<noteq> ''registrar'' \<and> mode \<noteq> ''resolver'' \<and> mode \<noteq> ''combined'' \<longrightarrow>
      GetRESTHandlers mode = Inl (''invalid operation mode: '' @ mode))"
  by (simp add: GetRESTHandlers_def registrarHandlers_def resolverHandlers_def
      NewHTTPHandler_def registerPath_def resolveDIDEndpoint_def http_MethodPost_def
      http_MethodGet_def registrarMode_def resolverMode_def combinedMode_def)

theorem GetRESTHandlers_modes_witness:
  "GetRESTHandlers ''registrar'' =
     Inr [\<lparr>Path = ''/1.0/register'', Method = ''POST'', Handle = registerDIDHandler_func\<rparr>] \<and>
   GetRESTHandlers ''both'' = Inl ''invalid operation mode: both''"
  using GetRESTHandlers_modes [of "''both''"] by simp

section \<open>The registration handler: properties\<close>

text \<open>
  C7. For every request whose body decodes and whose \<open>publicKeys\<close> sequence is empty, the
  handler writes the failure response with reason \<open>AddPublicKeys is empty\<close> (echoing the
  job id, without setting a status) and nothing else: the outcome mentions no key, no
  service and no collaborator, and no call to the backend's create is made.
\<close>

theorem registerDIDHandler_empty_keys:
  assumes "json_Decode env body = Inr data"
    and "PublicKey (DIDDocument data) = []"
  shows "registerDIDHandler env seed body =
     \<lparr>rw = \<lparr>WriteHeader_status = None,
             written = [JSON \<lparr>Response_JobID = JobID data,
               Response_DIDState = \<lparr>Identifier = [], Reason = ''AddPublicKeys is empty'',
                 State = Some RegistrationStateFailure, Secret_Keys = []\<rparr>\<rparr>]\<rparr>,
      create_calls = []\<rparr>"
  using assms by (simp add: handler_defs)

theorem registerDIDHandler_empty_keys_witness:
  "registerDIDHandler (example_env (example_request []) create_ok) [] ''{}'' =
     \<lparr>rw = \<lparr>WriteHeader_status = None,
             written = [JSON \<lparr>Response_JobID = ''j1'',
               Response_DIDState = \<lparr>Identifier = [], Reason = ''AddPublicKeys is empty'',
                 State = Some RegistrationStateFailure, Secret_Keys = []\<rparr>\<rparr>]\<rparr>,
      create_calls = []\<rparr>"
  using registerDIDHandler_empty_keys [of "example_env (example_request []) create_ok" "''{}''"
      "example_request []" "[]"]
  by (simp add: example_defs)

text \<open>
  C8. For every request that reaches the backend's create and for every error the backend
  returns, the handler writes the failure response whose reason is the text
  \<open>failed to create did doc : \<close> (with a blank on either side of the colon) followed by
  the backend's error text; it never sets a status, so the response goes out with
  status 200.
\<close>

theorem registerDIDHandler_create_error:
  assumes "json_Decode env body = Inr data"
    and "create_calls (registerDIDHandler env seed body) = [(doc, opts)]"
    and "blocVDRI_Create env doc opts = Inl err"
  shows "rw (registerDIDHandler env seed body) =
           \<lparr>WriteHeader_status = None,
            written = [JSON \<lparr>Response_JobID = JobID data,
              Response_DIDState = \<lparr>Identifier = [],
                Reason = ''failed to create did doc : '' @ err,
                State = Some RegistrationStateFailure, Secret_Keys = []\<rparr>\<rparr>]\<rparr> \<and>
         status_sent (rw (registerDIDHandler env seed body)) = 200"
  using assms
  by (auto simp: registerDIDHandler_def respond_def failure_def writeResponse_def
      new_ResponseWriter_def status_sent_def http_StatusOK_def Let_def
      split: sum.splits if_splits)

theorem registerDIDHandler_create_error_witness:
  "registerDIDHandler
     (example_env (example_request [example_key ''k1'' ''Ed25519'' ''AQID'' [''Authentication'']])
        create_fails) [] ''{}'' =
   \<lparr>rw = \<lparr>WriteHeader_status = None,
           written = [JSON \<lparr>Response_JobID = ''j1'',
             Response_DIDState = \<lparr>Identifier = [],
               Reason = ''failed to create did doc : boom'',
               State = Some RegistrationStateFailure, Secret_Keys = []\<rparr>\<rparr>]\<rparr>,
    create_calls =
      [(\<lparr>Authentication = [NewReferencedVerification
            (''k1'', ''JsonWebKey2020'', [], ed25519_PublicKey [1, 2, 3]) Authentication_rel],
         AssertionMethod = [], KeyAgreement = [], CapabilityDelegation = [],
         CapabilityInvocation = [], Doc_Service = []\<rparr>, [])]\<rparr> \<and>
   status_sent (rw (registerDIDHandler
     (example_env (example_request [example_key ''k1'' ''Ed25519'' ''AQID'' [''Authentication'']])
        create_fails) [] ''{}'')) = 200"
  (is "?out = ?res \<and> _")
proof -
  let ?data = "example_request [example_key ''k1'' ''Ed25519'' ''AQID'' [''Authentication'']]"
  let ?env = "example_env ?data create_fails"
  let ?doc = "\<lparr>Authentication = [NewReferencedVerification
            (''k1'', ''JsonWebKey2020'', [], ed25519_PublicKey [1, 2, 3]) Authentication_rel],
         AssertionMethod = [], KeyAgreement = [], CapabilityDelegation = [],
         CapabilityInvocation = [], Doc_Service = []\<rparr>"
  have out: "?out = ?res" by (simp add: eval_defs)
  have h1: "json_Decode ?env ''{}'' = Inr ?data" by (simp add: example_env_def)
  have h2: "create_calls (registerDIDHandler ?env [] ''{}'') = [(?doc, [])]"
    by (simp add: out)
  have h3: "blocVDRI_Create ?env ?doc [] = Inl ''boom''"
    by (simp add: example_env_def create_fails_def)
  have st: "status_sent (rw ?out) = 200"
    using registerDIDHandler_create_error [OF h1 h2 h3] by (rule conjunct2)
  show ?thesis using out st by blast
qed

text \<open>
  The reason is not the text \<open>failed to create did doc: <error>\<close>, with the colon right
  after \<open>doc\<close>: for the backend error \<open>boom\<close> the two texts differ.
\<close>

theorem registerDIDHandler_create_error_counterexample:
  "create_calls (registerDIDHandler
     (example_env (example_request [example_key ''k1'' ''Ed25519'' ''AQID'' [''Authentication'']])
        create_fails) [] ''{}'') =
     [(\<lparr>Authentication = [NewReferencedVerification
            (''k1'', ''JsonWebKey2020'', [], ed25519_PublicKey [1, 2, 3]) Authentication_rel],
         AssertionMethod = [], KeyAgreement = [], CapabilityDelegation = [],
         CapabilityInvocation = [], Doc_Service = []\<rparr>, [])] \<and>
   create_fails
     \<lparr>Authentication = [NewReferencedVerification
            (''k1'', ''JsonWebKey2020'', [], ed25519_PublicKey [1, 2, 3]) Authentication_rel],
         AssertionMethod = [], KeyAgreement = [], CapabilityDelegation = [],
         CapabilityInvocation = [], Doc_Service = []\<rparr> [] = Inl ''boom'' \<and>
   written (rw (registerDIDHandler
     (example_env (example_request [example_key ''k1'' ''Ed25519'' ''AQID'' [''Authentication'']])
        create_fails) [] ''{}'')) \<noteq>
     [JSON \<lparr>Response_JobID = ''j1'',
        Response_DIDState = \<lparr>Identifier = [],
          Reason = ''failed to create did doc: '' @ ''boom'',
          State = Some RegistrationStateFailure, Secret_Keys = []\<rparr>\<rparr>]"
  by (simp add: eval_defs)

text \<open>
  C6. For every request with a key entry whose key type is neither Ed25519 nor P-256,
  if every entry before it is processed without failure and the entry's value is valid
  base64, the handler writes the failure response with reason
  \<open>invalid key type: <type>\<close>; the outcome does not depend on the entries after it, and
  no call to the backend's create is made.
\<close>

theorem registerDIDHandler_invalid_key_type:
  assumes "json_Decode env body = Inr data"
    and "PublicKey (DIDDocument data) = pre @ v # post"
    and "addPublicKeys env pre init_state = Inr s"
    and "base64_DecodeString env (Value v) = Inr keyValue"
    and "KeyType v \<noteq> Ed25519KeyType" and "KeyType v \<noteq> P256KeyType"
  shows "registerDIDHandler env seed body =
     \<lparr>rw = \<lparr>WriteHeader_status = None,
             written = [JSON \<lparr>Response_JobID = JobID data,
               Response_DIDState = \<lparr>Identifier = [],
                 Reason = ''invalid key type: '' @ KeyType v,
                 State = Some RegistrationStateFailure, Secret_Keys = []\<rparr>\<rparr>]\<rparr>,
      create_calls = []\<rparr>"
proof -
  have "addPublicKey env v s = Inl (''invalid key type: '' @ KeyType v)"
    using assms(4-6) by (simp add: addPublicKey_def getKey_def)
  then have "addPublicKeys env (PublicKey (DIDDocument data)) init_state =
      Inl (''invalid key type: '' @ KeyType v)"
    using assms(2,3) by (simp add: addPublicKeys_stops)
  then show ?thesis
    using assms(1,2)
    by (simp add: handler_loop_failure respond_def failure_def writeResponse_def
        new_ResponseWriter_def)
qed

theorem registerDIDHandler_invalid_key_type_witness:
  "registerDIDHandler
     (example_env (example_request
        [example_key ''k1'' ''Ed25519'' ''AQID'' [''Authentication''],
         example_key ''k2'' ''RSA'' ''BAUG'' [''Authentication''],
         example_key ''k3'' ''DSA'' ''????'' [''Signing'']])
        create_ok) [] ''{}'' =
   \<lparr>rw = \<lparr>WriteHeader_status = None,
           written = [JSON \<lparr>Response_JobID = ''j1'',
             Response_DIDState = \<lparr>Identifier = [],
               Reason = ''invalid key type: RSA'',
               State = Some RegistrationStateFailure, Secret_Keys = []\<rparr>\<rparr>]\<rparr>,
    create_calls = []\<rparr>"
proof -
  let ?k1 = "example_key ''k1'' ''Ed25519'' ''AQID'' [''Authentication'']"
  let ?k2 = "example_key ''k2'' ''RSA'' ''BAUG'' [''Authentication'']"
  let ?k3 = "example_key ''k3'' ''DSA'' ''????'' [''Signing'']"
  let ?data = "example_request [?k1, ?k2, ?k3]"
  let ?env = "example_env ?data create_ok"
  let ?s = "\<lparr>didDoc = \<lparr>Authentication = [NewReferencedVerification
            (''k1'', ''JsonWebKey2020'', [], ed25519_PublicKey [1, 2, 3]) Authentication_rel],
         AssertionMethod = [], KeyAgreement = [], CapabilityDelegation = [],
         CapabilityInvocation = [], Doc_Service = []\<rparr>,
       didMethodOpt = [], keysID = [(''k1'', [1, 2, 3])]\<rparr>"
  have h1: "json_Decode ?env ''{}'' = Inr ?data" by (simp add: example_env_def)
  have h2: "PublicKey (DIDDocument ?data) = [?k1] @ ?k2 # [?k3]"
    by (simp add: example_request_def)
  have h3: "addPublicKeys ?env [?k1] init_state = Inr ?s" by (simp add: eval_defs)
  have h4: "base64_DecodeString ?env (Value ?k2) = Inr [4, 5, 6]" by (simp add: eval_defs)
  have h5: "KeyType ?k2 \<noteq> Ed25519KeyType" by (simp add: eval_defs)
  have h6: "KeyType ?k2 \<noteq> P256KeyType" by (simp add: eval_defs)
  show ?thesis
    using registerDIDHandler_invalid_key_type [OF h1 h2 h3 h4 h5 h6]
    by (simp add: example_defs)
qed

text \<open>
  Without the two conditions the reason can be another one: the value of an entry is
  decoded before its key type is looked at, so an entry with an unknown key type and a
  value that is not base64 fails with the decoder's reason.
\<close>

theorem registerDIDHandler_invalid_key_type_counterexample:
  "KeyType (example_key ''k1'' ''RSA'' ''????'' [''Authentication'']) \<noteq> Ed25519KeyType \<and>
   KeyType (example_key ''k1'' ''RSA'' ''????'' [''Authentication'']) \<noteq> P256KeyType \<and>
   registerDIDHandler
     (example_env (example_request [example_key ''k1'' ''RSA'' ''????'' [''Authentication'']])
        create_ok) [] ''{}'' =
   \<lparr>rw = \<lparr>WriteHeader_status = None,
           written = [JSON \<lparr>Response_JobID = ''j1'',
             Response_DIDState = \<lparr>Identifier = [],
               Reason = ''failed to decode public key value : illegal base64 data at input byte 0'',
               State = Some RegistrationStateFailure, Secret_Keys = []\<rparr>\<rparr>]\<rparr>,
    create_calls = []\<rparr> \<and>
   ''failed to decode public key value : illegal base64 data at input byte 0'' \<noteq>
     ''invalid key type: '' @ KeyType (example_key ''k1'' ''RSA'' ''????'' [''Authentication''])"
  by (simp add: eval_defs)

text \<open>
  C5. For every request with an ordinary key entry (neither recovery nor update) that
  declares a purpose tag outside the five supported ones, if every entry before it is
  processed without failure, the entry's key is decoded and wrapped into a verification
  method, and the tags before that one in the entry's list are supported, the handler
  writes the failure response with reason \<open>public key purpose <tag> not supported\<close>;
  the outcome does not depend on the entries after it, and no call to the backend's
  create is made.
\<close>

theorem registerDIDHandler_unsupported_purpose:
  assumes "json_Decode env body = Inr data"
    and "PublicKey (DIDDocument data) = pre @ v # post"
    and "addPublicKeys env pre init_state = Inr s"
    and "\<not> Recovery v" and "\<not> Update v"
    and "base64_DecodeString env (Value v) = Inr keyValue"
    and "getKey env (KeyType v) keyValue = Inr k"
    and "JWKFromKey env k = Inr jwk"
    and "NewVerificationMethodFromJWK env (ID v) (Type v) [] jwk = Inr vm"
    and "Purposes v = ps @ p # qs"
    and "set ps \<subseteq> set supported_purposes"
    and "p \<notin> set supported_purposes"
  shows "registerDIDHandler env seed body =
     \<lparr>rw = \<lparr>WriteHeader_status = None,
             written = [JSON \<lparr>Response_JobID = JobID data,
               Response_DIDState = \<lparr>Identifier = [],
                 Reason = ''public key purpose '' @ p @ '' not supported'',
                 State = Some RegistrationStateFailure, Secret_Keys = []\<rparr>\<rparr>]\<rparr>,
      create_calls = []\<rparr>"
proof -
  have "addPurposes vm (Purposes v) (didDoc s) =
      Inl (''public key purpose '' @ p @ '' not supported'')"
    using assms(10-12) by (simp add: addPurposes_unsupported)
  then have "addPublicKey env v s = Inl (''public key purpose '' @ p @ '' not supported'')"
    using assms(4-9) by (simp add: addPublicKey_def)
  then have "addPublicKeys env (PublicKey (DIDDocument data)) init_state =
      Inl (''public key purpose '' @ p @ '' not supported'')"
    using assms(2,3) by (simp add: addPublicKeys_stops)
  then show ?thesis
    using assms(1,2)
    by (simp add: handler_loop_failure respond_def failure_def writeResponse_def
        new_ResponseWriter_def)
qed

theorem registerDIDHandler_unsupported_purpose_witness:
  "registerDIDHandler
     (example_env (example_request
        [example_key ''k1'' ''Ed25519'' ''AQID'' [''Authentication''],
         example_key ''k2'' ''Ed25519'' ''BAUG'' [''KeyAgreement'', ''Signing'', ''Sealing''],
         example_key ''k3'' ''DSA'' ''????'' [''Authentication'']])
        create_ok) [] ''{}'' =
   \<lparr>rw = \<lparr>WriteHeader_status = None,
           written = [JSON \<lparr>Response_JobID = ''j1'',
             Response_DIDState = \<lparr>Identifier = [],
               Reason = ''public key purpose Signing not supported'',
               State = Some RegistrationStateFailure, Secret_Keys = []\<rparr>\<rparr>]\<rparr>,
    create_calls = []\<rparr>"
proof -
  let ?k1 = "example_key ''k1'' ''Ed25519'' ''AQID'' [''Authentication'']"
  let ?k2 = "example_key ''k2'' ''Ed25519'' ''BAUG'' [''KeyAgreement'', ''Signing'', ''Sealing'']"
  let ?k3 = "example_key ''k3'' ''DSA'' ''????'' [''Authentication'']"
  let ?data = "example_request [?k1, ?k2, ?k3]"
  let ?env = "example_env ?data create_ok"
  let ?s = "\<lparr>didDoc = \<lparr>Authentication = [NewReferencedVerification
            (''k1'', ''JsonWebKey2020'', [], ed25519_PublicKey [1, 2, 3]) Authentication_rel],
         AssertionMethod = [], KeyAgreement = [], CapabilityDelegation = [],
         CapabilityInvocation = [], Doc_Service = []\<rparr>,
       didMethodOpt = [], keysID = [(''k1'', [1, 2, 3])]\<rparr>"
  have h1: "json_Decode ?env ''{}'' = Inr ?data" by (simp add: example_env_def)
  have h2: "PublicKey (DIDDocument ?data) = [?k1] @ ?k2 # [?k3]"
    by (simp add: example_request_def)
  have h3: "addPublicKeys ?env [?k1] init_state = Inr ?s" by (simp add: eval_defs)
  have h4: "\<not> Recovery ?k2" by (simp add: example_key_def)
  have h5: "\<not> Update ?k2" by (simp add: example_key_def)
  have h6: "base64_DecodeString ?env (Value ?k2) = Inr [4, 5, 6]" by (simp add: eval_defs)
  have h7: "getKey ?env (KeyType ?k2) [4, 5, 6] = Inr (ed25519_PublicKey [4, 5, 6])"
    by (simp add: eval_defs)
  have h8: "JWKFromKey ?env (ed25519_PublicKey [4, 5, 6]) = Inr (ed25519_PublicKey [4, 5, 6])"
    by (simp add: example_env_def)
  have h9: "NewVerificationMethodFromJWK ?env (ID ?k2) (Type ?k2) [] (ed25519_PublicKey [4, 5, 6])
      = Inr (''k2'', ''JsonWebKey2020'', [], ed25519_PublicKey [4, 5, 6])"
    by (simp add: example_env_def example_key_def)
  have h10: "Purposes ?k2 = [''KeyAgreement''] @ ''Signing'' # [''Sealing'']"
    by (simp add: example_key_def)
  have h11: "set [''KeyAgreement''] \<subseteq> set supported_purposes"
    by (simp add: supported_purposes_def purpose_defs)
  have h12: "''Signing'' \<notin> set supported_purposes"
    by (simp add: supported_purposes_def purpose_defs)
  show ?thesis
    using registerDIDHandler_unsupported_purpose [OF h1 h2 h3 h4 h5 h6 h7 h8 h9 h10 h11 h12]
    by (simp add: example_defs)
qed

text \<open>
  Without these conditions the reason can be another one: the key type of an entry is
  checked before its purposes, so an ordinary entry with an unknown key type and an
  unsupported purpose fails with the key type's reason.
\<close>

theorem registerDIDHandler_unsupported_purpose_counterexample:
  "\<not> Recovery (example_key ''k1'' ''RSA'' ''AQID'' [''Signing'']) \<and>
   \<not> Update (example_key ''k1'' ''RSA'' ''AQID'' [''Signing'']) \<and>
   ''Signing'' \<in> set (Purposes (example_key ''k1'' ''RSA'' ''AQID'' [''Signing''])) \<and>
   ''Signing'' \<notin> set supported_purposes \<and>
   registerDIDHandler
     (example_env (example_request [example_key ''k1'' ''RSA'' ''AQID'' [''Signing'']])
        create_ok) [] ''{}'' =
   \<lparr>rw = \<lparr>WriteHeader_status = None,
           written = [JSON \<lparr>Response_JobID = ''j1'',
             Response_DIDState = \<lparr>Identifier = [],
               Reason = ''invalid key type: RSA'',
               State = Some RegistrationStateFailure, Secret_Keys = []\<rparr>\<rparr>]\<rparr>,
    create_calls = []\<rparr> \<and>
   ''invalid key type: RSA'' \<noteq> ''public key purpose '' @ ''Signing'' @ '' not supported''"
  by (simp add: eval_defs supported_purposes_def)

subsection \<open>Decoding of P-256 keys\<close>

text \<open>
  For the key type P-256, \<open>getKey\<close> hands the bytes to the point decoder and wraps
  whatever comes back; it returns no error for any byte string.
\<close>

lemma getKey_P256:
  "getKey env P256KeyType value =
     Inr (ecdsa_PublicKey_P256 (fst (elliptic_Unmarshal env value))
       (snd (elliptic_Unmarshal env value)))"
  by (simp add: getKey_def P256KeyType_def Ed25519KeyType_def split: prod.splits)

text \<open>
  C2. A P-256 key whose bytes are not a point encoding should fail to decode and fail the
  request. On the recovery key with the three bytes 1, 2, 3 (no point encoding: the
  decoder returns nil coordinates) \<open>getKey\<close> returns a key with nil coordinates and no
  error, and the handler hands that key to the backend as the recovery option and
  reports the registration as finished.
\<close>

theorem getKey_P256_invalid_point:
  "getKey (example_env (example_request
        [(example_key ''k1'' ''P-256'' ''AQID'' [])\<lparr>Recovery := True\<rparr>]) create_ok)
      P256KeyType [1, 2, 3] = Inr (ecdsa_PublicKey_P256 None None) \<and>
   registerDIDHandler
     (example_env (example_request
        [(example_key ''k1'' ''P-256'' ''AQID'' [])\<lparr>Recovery := True\<rparr>]) create_ok) [] ''{}'' =
   \<lparr>rw = \<lparr>WriteHeader_status = None,
           written = [JSON \<lparr>Response_JobID = ''j1'',
             Response_DIDState = \<lparr>Identifier = ''did:example:abc'', Reason = [],
               State = Some RegistrationStateFinished, Secret_Keys = []\<rparr>\<rparr>]\<rparr>,
    create_calls =
      [(\<lparr>Authentication = [], AssertionMethod = [], KeyAgreement = [],
         CapabilityDelegation = [], CapabilityInvocation = [], Doc_Service = []\<rparr>,
        [WithOption RecoveryPublicKeyOpt (ecdsa_PublicKey_P256 None None)])]\<rparr>"
  by (simp add: eval_defs)

subsection \<open>The secret bundle\<close>

text \<open>
  C1. For every request whose backend create call succeeds, the response is Finished with
  the identifier the backend returned. When the ordinary entries of the request declare
  pairwise distinct ids, the secret bundle holds exactly one entry per ordinary entry, in
  some order: its id is the backend's identifier, \<open>#\<close> and the entry's declared id, and
  its \<open>publicKeyBase58\<close> is the base58 encoding of the bytes the entry's value decodes to
  (every value of the request does decode).
\<close>

theorem secret_bundle_distinct_ids:
  assumes "json_Decode env body = Inr data"
    and "create_calls (registerDIDHandler env seed body) = [(doc, opts)]"
    and "blocVDRI_Create env doc opts = Inr didID"
    and "distinct (map ID (filter ordinary (PublicKey (DIDDocument data))))"
  shows "\<exists>keys.
     registerDIDHandler env seed body =
       \<lparr>rw = \<lparr>WriteHeader_status = None,
               written = [JSON \<lparr>Response_JobID = JobID data,
                 Response_DIDState = \<lparr>Identifier = didID, Reason = [],
                   State = Some RegistrationStateFinished, Secret_Keys = keys\<rparr>\<rparr>]\<rparr>,
        create_calls = [(doc, opts)]\<rparr> \<and>
     mset keys =
       mset (map (\<lambda>v. \<lparr>Key_ID = didID @ ''#'' @ ID v,
                        PublicKeyBase58 = base58_Encode env (decoded env v)\<rparr>)
              (filter ordinary (PublicKey (DIDDocument data)))) \<and>
     list_all (\<lambda>v. base64_DecodeString env (Value v) = Inr (decoded env v))
       (PublicKey (DIDDocument data))"
proof -
  let ?vs = "PublicKey (DIDDocument data)"
  from handler_finished [OF assms(1-3)] obtain s where
    s: "addPublicKeys env ?vs init_state = Inr s"
    and out: "registerDIDHandler env seed body =
       \<lparr>rw = \<lparr>WriteHeader_status = None,
               written = [JSON \<lparr>Response_JobID = JobID data,
                 Response_DIDState = \<lparr>Identifier = didID, Reason = [],
                   State = Some RegistrationStateFinished,
                   Secret_Keys = createKeys env seed (keysID s) didID\<rparr>\<rparr>]\<rparr>,
        create_calls = [(doc, opts)]\<rparr>"
    by blast
  have "keysID s = fold (\<lambda>v. AList.update (ID v) (decoded env v)) (filter ordinary ?vs) []"
    using s by (rule addPublicKeys_keysID)
  also have "\<dots> = [] @ map (\<lambda>v. (ID v, decoded env v)) (filter ordinary ?vs)"
    using assms(4) by (intro fold_update_distinct) simp
  finally have al: "keysID s = map (\<lambda>v. (ID v, decoded env v)) (filter ordinary ?vs)"
    by simp
  have "mset (createKeys env seed (keysID s) didID) =
      image_mset (\<lambda>(k, v). \<lparr>Key_ID = didID @ ''#'' @ k, PublicKeyBase58 = base58_Encode env v\<rparr>)
        (mset (range_order seed (keysID s)))"
    by (simp add: createKeys_def)
  also have "\<dots> = mset (map (\<lambda>v. \<lparr>Key_ID = didID @ ''#'' @ ID v,
                        PublicKeyBase58 = base58_Encode env (decoded env v)\<rparr>)
              (filter ordinary ?vs))"
    by (simp add: mset_range_order al comp_def multiset.map_comp)
  finally have keys_eq: "mset (createKeys env seed (keysID s) didID) =
      mset (map (\<lambda>v. \<lparr>Key_ID = didID @ ''#'' @ ID v,
                        PublicKeyBase58 = base58_Encode env (decoded env v)\<rparr>)
              (filter ordinary ?vs))" .
  have dec: "list_all (\<lambda>v. base64_DecodeString env (Value v) = Inr (decoded env v)) ?vs"
    using addPublicKeys_decoded [OF s] by (simp add: list_all_iff)
  from out keys_eq dec show ?thesis by blast
qed

theorem secret_bundle_distinct_ids_witness:
  "\<exists>keys.
     registerDIDHandler (example_env_of [example_recovery, example_k1, example_k2])
       [1, 0] ''{}'' =
       \<lparr>rw = \<lparr>WriteHeader_status = None,
               written = [JSON \<lparr>Response_JobID = ''j1'',
                 Response_DIDState = \<lparr>Identifier = ''did:example:abc'', Reason = [],
                   State = Some RegistrationStateFinished, Secret_Keys = keys\<rparr>\<rparr>]\<rparr>,
        create_calls =
          [(example_doc, [WithOption RecoveryPublicKeyOpt (ed25519_PublicKey [4, 5, 6])])]\<rparr> \<and>
     mset keys =
       {#\<lparr>Key_ID = ''did:example:abc#k1'', PublicKeyBase58 = ''Ldp''\<rparr>,
         \<lparr>Key_ID = ''did:example:abc#k2'', PublicKeyBase58 = ''2MJu''\<rparr>#}"
proof -
  let ?keys = "[example_recovery, example_k1, example_k2]"
  let ?env = "example_env_of ?keys"
  let ?opts = "[WithOption RecoveryPublicKeyOpt (ed25519_PublicKey [4, 5, 6])]"
  have h1: "json_Decode ?env ''{}'' = Inr (example_request ?keys)"
    by (simp add: example_env_of_def example_env_def)
  have h2: "create_calls (registerDIDHandler ?env [1, 0] ''{}'') = [(example_doc, ?opts)]"
    by (simp add: eval_defs)
  have h3: "blocVDRI_Create ?env example_doc ?opts = Inr ''did:example:abc''"
    by (simp add: example_env_of_def example_env_def create_ok_def)
  have h4: "distinct (map ID (filter ordinary (PublicKey (DIDDocument (example_request ?keys)))))"
    by (simp add: example_defs ordinary_def)
  have flt: "filter ordinary (PublicKey (DIDDocument (example_request ?keys))) =
      [example_k1, example_k2]"
    by (simp add: example_defs ordinary_def)
  have dec: "decoded ?env example_k1 = [1, 2, 3]" "decoded ?env example_k2 = [4, 5, 6]"
    by (simp_all add: decoded_def example_defs)
  have enc: "base58_Encode ?env [1, 2, 3] = ''Ldp''" "base58_Encode ?env [4, 5, 6] = ''2MJu''"
    by (simp_all add: example_defs)
  have ids: "ID example_k1 = ''k1''" "ID example_k2 = ''k2''"
    by (simp_all add: example_defs)
  have job: "JobID (example_request ?keys) = ''j1''" by (simp add: example_request_def)
  from secret_bundle_distinct_ids [OF h1 h2 h3 h4]
  show ?thesis
    unfolding flt by (elim exE conjE) (simp add: dec enc ids job)
qed

text \<open>
  Without distinct ids the bundle can be shorter than the list of ordinary entries: two
  ordinary entries with the id \<open>k1\<close> leave one bundle entry, and the base58 encoding of
  the first entry's bytes, \<open>Ldp\<close>, is not in it.
\<close>

theorem secret_bundle_distinct_ids_counterexample:
  "length (filter ordinary [example_k1, example_k1_again]) = 2 \<and>
   registerDIDHandler (example_env_of [example_k1, example_k1_again]) [] ''{}'' =
     \<lparr>rw = \<lparr>WriteHeader_status = None,
             written = [JSON \<lparr>Response_JobID = ''j1'',
               Response_DIDState = \<lparr>Identifier = ''did:example:abc'', Reason = [],
                 State = Some RegistrationStateFinished,
                 Secret_Keys =
                   [\<lparr>Key_ID = ''did:example:abc#k1'', PublicKeyBase58 = ''2MJu''\<rparr>]\<rparr>\<rparr>]\<rparr>,
      create_calls =
        [(\<lparr>Authentication =
             [NewReferencedVerification
                (''k1'', ''JsonWebKey2020'', [], ed25519_PublicKey [1, 2, 3])
                Authentication_rel],
           AssertionMethod =
             [NewReferencedVerification
                (''k1'', ''JsonWebKey2020'', [], ed25519_PublicKey [4, 5, 6])
                AssertionMethod_rel],
           KeyAgreement =
             [NewReferencedVerification
                (''k1'', ''JsonWebKey2020'', [], ed25519_PublicKey [1, 2, 3])
                KeyAgreement_rel],
           CapabilityDelegation = [], CapabilityInvocation = [], Doc_Service = []\<rparr>, [])]\<rparr> \<and>
   base58_Encode (example_env_of [example_k1, example_k1_again])
     (decoded (example_env_of [example_k1, example_k1_again]) example_k1) = ''Ldp''"
  by (simp add: eval_defs ordinary_def decoded_def)

text \<open>
  C10. In a request that succeeds, for every ordinary entry the secret bundle holds exactly
  one entry with the backend's identifier, \<open>#\<close> and the declared id of that entry, however
  many ordinary entries declare the id; its \<open>publicKeyBase58\<close> encodes the bytes of the
  last ordinary entry with that id, in the order of submission. This holds for every
  iteration order of the map (every \<open>seed\<close>); by \<open>range_order_any\<close> every order of the
  bundle arises from some iteration order.
\<close>

theorem secret_bundle_duplicate_ids:
  assumes "json_Decode env body = Inr data"
    and "create_calls (registerDIDHandler env seed body) = [(doc, opts)]"
    and "blocVDRI_Create env doc opts = Inr didID"
    and "v \<in> set (PublicKey (DIDDocument data))"
    and "\<not> Recovery v" and "\<not> Update v"
  shows "\<exists>keys.
     registerDIDHandler env seed body =
       \<lparr>rw = \<lparr>WriteHeader_status = None,
               written = [JSON \<lparr>Response_JobID = JobID data,
                 Response_DIDState = \<lparr>Identifier = didID, Reason = [],
                   State = Some RegistrationStateFinished, Secret_Keys = keys\<rparr>\<rparr>]\<rparr>,
        create_calls = [(doc, opts)]\<rparr> \<and>
     filter (\<lambda>e. Key_ID e = didID @ ''#'' @ ID v) keys =
       [\<lparr>Key_ID = didID @ ''#'' @ ID v,
         PublicKeyBase58 = base58_Encode env (decoded env
           (last (filter (\<lambda>u. ordinary u \<and> ID u = ID v) (PublicKey (DIDDocument data)))))\<rparr>] \<and>
     base64_DecodeString env
       (Value (last (filter (\<lambda>u. ordinary u \<and> ID u = ID v) (PublicKey (DIDDocument data))))) =
       Inr (decoded env
         (last (filter (\<lambda>u. ordinary u \<and> ID u = ID v) (PublicKey (DIDDocument data)))))"
proof -
  let ?vs = "PublicKey (DIDDocument data)"
  let ?same = "filter (\<lambda>u. ordinary u \<and> ID u = ID v) ?vs"
  from handler_finished [OF assms(1-3)] obtain s where
    s: "addPublicKeys env ?vs init_state = Inr s"
    and out: "registerDIDHandler env seed body =
       \<lparr>rw = \<lparr>WriteHeader_status = None,
               written = [JSON \<lparr>Response_JobID = JobID data,
                 Response_DIDState = \<lparr>Identifier = didID, Reason = [],
                   State = Some RegistrationStateFinished,
                   Secret_Keys = createKeys env seed (keysID s) didID\<rparr>\<rparr>]\<rparr>,
        create_calls = [(doc, opts)]\<rparr>"
    by blast
  have al: "keysID s =
      fold (\<lambda>v. AList.update (ID v) (decoded env v)) (filter ordinary ?vs) []"
    using s by (rule addPublicKeys_keysID)
  have v_ord: "v \<in> set (filter ordinary ?vs)"
    using assms(4-6) by (simp add: ordinary_def)
  have dist: "distinct (map fst (keysID s))"
    unfolding al by (rule distinct_fold_update) simp
  have same: "filter (\<lambda>x. ID x = ID v) (filter ordinary ?vs) = ?same"
    by simp
  have ex: "\<exists>x \<in> set (filter ordinary ?vs). ID x = ID v"
    using v_ord by blast
  have "map_of (keysID s) (ID v) =
      Some (decoded env (last (filter (\<lambda>x. ID x = ID v) (filter ordinary ?vs))))"
    unfolding al using ex by (simp only: map_of_fold_update if_True)
  then have "map_of (keysID s) (ID v) = Some (decoded env (last ?same))"
    by (simp only: same)
  from filter_key_distinct [OF dist this]
  have "filter (\<lambda>p. fst p = ID v) (range_order seed (keysID s)) =
      [(ID v, decoded env (last ?same))]"
    by (rule filter_range_order_single)
  then have one: "filter (\<lambda>e. Key_ID e = didID @ ''#'' @ ID v)
      (createKeys env seed (keysID s) didID) =
      [\<lparr>Key_ID = didID @ ''#'' @ ID v,
        PublicKeyBase58 = base58_Encode env (decoded env (last ?same))\<rparr>]"
    unfolding createKeys_filter by simp
  have "?same \<noteq> []" using assms(4-6) by (auto simp: filter_empty_conv ordinary_def)
  then have "last ?same \<in> set ?same" by (rule last_in_set)
  then have "last ?same \<in> set ?vs" by simp
  from addPublicKeys_decoded [OF s this]
  have dec: "base64_DecodeString env (Value (last ?same)) = Inr (decoded env (last ?same))" .
  from out one dec show ?thesis by blast
qed

theorem secret_bundle_duplicate_ids_witness:
  "\<exists>keys.
     registerDIDHandler (example_env_of [example_k1, example_k2, example_k1_again])
       [] ''{}'' =
       \<lparr>rw = \<lparr>WriteHeader_status = None,
               written = [JSON \<lparr>Response_JobID = ''j1'',
                 Response_DIDState = \<lparr>Identifier = ''did:example:abc'', Reason = [],
                   State = Some RegistrationStateFinished, Secret_Keys = keys\<rparr>\<rparr>]\<rparr>,
        create_calls =
          [(example_doc\<lparr>AssertionMethod :=
              [NewReferencedVerification
                 (''k1'', ''JsonWebKey2020'', [], ed25519_PublicKey [4, 5, 6])
                 AssertionMethod_rel]\<rparr>, [])]\<rparr> \<and>
     filter (\<lambda>e. Key_ID e = ''did:example:abc#k1'') keys =
       [\<lparr>Key_ID = ''did:example:abc#k1'', PublicKeyBase58 = ''2MJu''\<rparr>]"
proof -
  let ?keys = "[example_k1, example_k2, example_k1_again]"
  let ?env = "example_env_of ?keys"
  let ?doc = "example_doc\<lparr>AssertionMethod :=
              [NewReferencedVerification
                 (''k1'', ''JsonWebKey2020'', [], ed25519_PublicKey [4, 5, 6])
                 AssertionMethod_rel]\<rparr>"
  have h1: "json_Decode ?env ''{}'' = Inr (example_request ?keys)"
    by (simp add: example_env_of_def example_env_def)
  have h2: "create_calls (registerDIDHandler ?env [] ''{}'') = [(?doc, [])]"
    by (simp add: eval_defs)
  have h3: "blocVDRI_Create ?env ?doc [] = Inr ''did:example:abc''"
    by (simp add: example_env_of_def example_env_def create_ok_def)
  have h4: "example_k1 \<in> set (PublicKey (DIDDocument (example_request ?keys)))"
    by (simp add: example_request_def)
  have h5: "\<not> Recovery example_k1" by (simp add: example_k1_def example_key_def)
  have h6: "\<not> Update example_k1" by (simp add: example_k1_def example_key_def)
  have lst: "last (filter (\<lambda>u. ordinary u \<and> ID u = ''k1'')
      (PublicKey (DIDDocument (example_request ?keys)))) = example_k1_again"
    by (simp add: example_defs ordinary_def)
  have dec: "decoded ?env example_k1_again = [4, 5, 6]"
    by (simp add: decoded_def example_defs)
  have enc: "base58_Encode ?env [4, 5, 6] = ''2MJu''"
    by (simp add: example_defs)
  have ids: "ID example_k1 = ''k1''" by (simp add: example_defs)
  have job: "JobID (example_request ?keys) = ''j1''" by (simp add: example_request_def)
  from secret_bundle_duplicate_ids [OF h1 h2 h3 h4 h5 h6]
  obtain keys where
    out: "registerDIDHandler ?env [] ''{}'' =
       \<lparr>rw = \<lparr>WriteHeader_status = None,
               written = [JSON \<lparr>Response_JobID = JobID (example_request ?keys),
                 Response_DIDState = \<lparr>Identifier = ''did:example:abc'', Reason = [],
                   State = Some RegistrationStateFinished, Secret_Keys = keys\<rparr>\<rparr>]\<rparr>,
        create_calls = [(?doc, [])]\<rparr>"
    and one: "filter (\<lambda>e. Key_ID e = ''did:example:abc'' @ ''#'' @ ID example_k1) keys =
       [\<lparr>Key_ID = ''did:example:abc'' @ ''#'' @ ID example_k1,
         PublicKeyBase58 = base58_Encode ?env (decoded ?env
           (last (filter (\<lambda>u. ordinary u \<and> ID u = ID example_k1)
              (PublicKey (DIDDocument (example_request ?keys))))))\<rparr>]"
    by (elim exE conjE)
  have one': "filter (\<lambda>e. Key_ID e = ''did:example:abc#k1'') keys =
       [\<lparr>Key_ID = ''did:example:abc#k1'', PublicKeyBase58 = ''2MJu''\<rparr>]"
    using one by (simp add: ids lst dec enc)
  have out': "registerDIDHandler ?env [] ''{}'' =
       \<lparr>rw = \<lparr>WriteHeader_status = None,
               written = [JSON \<lparr>Response_JobID = ''j1'',
                 Response_DIDState = \<lparr>Identifier = ''did:example:abc'', Reason = [],
                   State = Some RegistrationStateFinished, Secret_Keys = keys\<rparr>\<rparr>]\<rparr>,
        create_calls = [(?doc, [])]\<rparr>"
    using out unfolding job .
  from out' one' show ?thesis by blast
qed

subsection \<open>Recovery, update and ordinary keys\<close>

text \<open>
  C3. Take a request that reaches the backend and an entry of it whose recovery or update
  flag is set. The entry's value decodes to a key. Every bucket of the submitted document
  is the bucket built from the entries before it followed by the bucket built from the
  entries after it: the entry adds nothing to any bucket, whatever its purposes. The
  options submitted are those of the earlier entries, then one option carrying the key
  (the recovery-key option when the recovery flag is set, the update-key option
  otherwise), then those of the later entries. The document and the map of tracked keys,
  from which the secret bundle is built, are those of the same list of entries without
  that entry.
\<close>

theorem flagged_key_option_only:
  assumes "json_Decode env body = Inr data"
    and "PublicKey (DIDDocument data) = pre @ v # post"
    and "Recovery v \<or> Update v"
    and "create_calls (registerDIDHandler env seed body) = [(doc, opts)]"
  shows "\<exists>keyValue k s1 s3 s s'.
     base64_DecodeString env (Value v) = Inr keyValue \<and>
     getKey env (KeyType v) keyValue = Inr k \<and>
     addPublicKeys env pre init_state = Inr s1 \<and>
     addPublicKeys env post init_state = Inr s3 \<and>
     Authentication doc = Authentication (didDoc s1) @ Authentication (didDoc s3) \<and>
     AssertionMethod doc = AssertionMethod (didDoc s1) @ AssertionMethod (didDoc s3) \<and>
     KeyAgreement doc = KeyAgreement (didDoc s1) @ KeyAgreement (didDoc s3) \<and>
     CapabilityDelegation doc =
       CapabilityDelegation (didDoc s1) @ CapabilityDelegation (didDoc s3) \<and>
     CapabilityInvocation doc =
       CapabilityInvocation (didDoc s1) @ CapabilityInvocation (didDoc s3) \<and>
     opts = didMethodOpt s1 @
       [WithOption (if Recovery v then RecoveryPublicKeyOpt else UpdatePublicKeyOpt) k] @
       didMethodOpt s3 \<and>
     addPublicKeys env (pre @ v # post) init_state = Inr s \<and>
     addPublicKeys env (pre @ post) init_state = Inr s' \<and>
     didDoc s' = didDoc s \<and> keysID s' = keysID s"
proof -
  from handler_create_call [OF assms(1,4)] assms(2) obtain s where
    s: "addPublicKeys env (pre @ v # post) init_state = Inr s"
    and doc: "doc = addServices (Service (DIDDocument data)) (didDoc s)"
    and opts: "opts = didMethodOpt s"
    by auto
  from addPublicKeys_split [OF s] obtain s1 s2 s3 where
    s1: "addPublicKeys env pre init_state = Inr s1"
    and s2: "addPublicKey env v s1 = Inr s2"
    and s3: "addPublicKeys env post init_state = Inr s3"
    and fin: "addPublicKeys env post s2 = Inr s"
    by blast
  have nord: "\<not> ordinary v" using assms(3) by (auto simp: ordinary_def)
  from addPublicKey_flagged [OF nord s2] obtain k where
    a: "base64_DecodeString env (Value v) = Inr (decoded env v)"
    and b: "getKey env (KeyType v) (decoded env v) = Inr k"
    and step: "\<forall>u. addPublicKey env v u = Inr (u\<lparr>didMethodOpt := didMethodOpt u @
       [WithOption (if Recovery v then RecoveryPublicKeyOpt else UpdatePublicKeyOpt) k]\<rparr>)"
    by (elim exE conjE)
  from step s2 have e2: "s2 = s1\<lparr>didMethodOpt := didMethodOpt s1 @
       [WithOption (if Recovery v then RecoveryPublicKeyOpt else UpdatePublicKeyOpt) k]\<rparr>"
    by auto
  from addPublicKeys_init [OF s3, of s2] fin
  have es: "s = \<lparr>didDoc = doc_append (didDoc s2) (didDoc s3),
             didMethodOpt = didMethodOpt s2 @ didMethodOpt s3,
             keysID = fold (\<lambda>v. AList.update (ID v) (decoded env v)) (filter ordinary post)
               (keysID s2)\<rparr>"
    by auto
  define s' where "s' = \<lparr>didDoc = doc_append (didDoc s1) (didDoc s3),
             didMethodOpt = didMethodOpt s1 @ didMethodOpt s3,
             keysID = fold (\<lambda>v. AList.update (ID v) (decoded env v)) (filter ordinary post)
               (keysID s1)\<rparr>"
  have without: "addPublicKeys env (pre @ post) init_state = Inr s'"
    using s1 addPublicKeys_init [OF s3, of s1] by (simp add: addPublicKeys_append s'_def)
  have same: "didDoc s' = didDoc s" "keysID s' = keysID s"
    by (simp_all add: s'_def es e2)
  have dopts: "didMethodOpt s = didMethodOpt s1 @
       [WithOption (if Recovery v then RecoveryPublicKeyOpt else UpdatePublicKeyOpt) k] @
       didMethodOpt s3"
    by (simp add: es e2)
  have ds: "didDoc s = doc_append (didDoc s1) (didDoc s3)"
    by (simp add: es e2)
  have buckets:
    "Authentication doc = Authentication (didDoc s)"
    "AssertionMethod doc = AssertionMethod (didDoc s)"
    "KeyAgreement doc = KeyAgreement (didDoc s)"
    "CapabilityDelegation doc = CapabilityDelegation (didDoc s)"
    "CapabilityInvocation doc = CapabilityInvocation (didDoc s)"
    by (simp_all add: doc addServices_buckets)
  show ?thesis
    apply (rule exI [of _ "decoded env v"], rule exI [of _ k], rule exI [of _ s1],
        rule exI [of _ s3], rule exI [of _ s], rule exI [of _ s'])
    using a b s1 s3 s without same
    by (simp add: buckets ds doc_append_def opts dopts)
qed

theorem flagged_key_option_only_witness:
  "create_calls (registerDIDHandler
      (example_env_of [example_k1, example_recovery, example_k2]) [] ''{}'') =
     [(example_doc, [WithOption RecoveryPublicKeyOpt (ed25519_PublicKey [4, 5, 6])])] \<and>
   (\<exists>s s'.
      addPublicKeys (example_env_of [example_k1, example_recovery, example_k2])
        [example_k1, example_recovery, example_k2] init_state = Inr s \<and>
      addPublicKeys (example_env_of [example_k1, example_recovery, example_k2])
        [example_k1, example_k2] init_state = Inr s' \<and>
      didDoc s' = didDoc s \<and> keysID s' = keysID s)"
proof -
  let ?keys = "[example_k1, example_recovery, example_k2]"
  let ?env = "example_env_of ?keys"
  let ?opts = "[WithOption RecoveryPublicKeyOpt (ed25519_PublicKey [4, 5, 6])]"
  have h1: "json_Decode ?env ''{}'' = Inr (example_request ?keys)"
    by (simp add: example_env_of_def example_env_def)
  have h2: "PublicKey (DIDDocument (example_request ?keys)) =
      [example_k1] @ example_recovery # [example_k2]"
    by (simp add: example_request_def)
  have h3: "Recovery example_recovery \<or> Update example_recovery"
    by (simp add: example_recovery_def)
  have h4: "create_calls (registerDIDHandler ?env [] ''{}'') = [(example_doc, ?opts)]"
    by (simp add: eval_defs)
  from flagged_key_option_only [OF h1 h2 h3 h4]
  have "\<exists>s s'. addPublicKeys ?env ?keys init_state = Inr s \<and>
      addPublicKeys ?env [example_k1, example_k2] init_state = Inr s' \<and>
      didDoc s' = didDoc s \<and> keysID s' = keysID s"
    by (elim exE conjE) (simp only: append_Cons append_Nil, blast)
  with h4 show ?thesis by blast
qed






end
